theory Spec2Isabelle
  imports Main
begin

section \<open>Values of the plugin framework\<close>

text \<open>
  A \<^verbatim>\<open>types.String\<close> or \<^verbatim>\<open>types.Bool\<close> of the plugin framework is in one of three
  states: null, unknown (not yet known), or known with a value. \<^verbatim>\<open>ValueString\<close> and
  \<^verbatim>\<open>ValueBool\<close> return the Go zero value when the state is null or unknown.
\<close>

datatype 'a tfval = Null | Unknown | Known 'a

fun IsNull :: "'a tfval \<Rightarrow> bool" where
  "IsNull Null = True"
| "IsNull Unknown = False"
| "IsNull (Known v) = False"

fun IsUnknown :: "'a tfval \<Rightarrow> bool" where
  "IsUnknown Null = False"
| "IsUnknown Unknown = True"
| "IsUnknown (Known v) = False"

fun ValueString :: "string tfval \<Rightarrow> string" where
  "ValueString Null = ''''"
| "ValueString Unknown = ''''"
| "ValueString (Known s) = s"

fun ValueBool :: "bool tfval \<Rightarrow> bool" where
  "ValueBool Null = False"
| "ValueBool Unknown = False"
| "ValueBool (Known b) = b"

subsection \<open>Diagnostics\<close>

datatype severity = SeverityError | SeverityWarning

datatype path = Root string

record diagnostic =
  Severity :: severity
  Path :: "path option"
  Summary :: string
  Detail :: string

text \<open>\<^verbatim>\<open>Diagnostics.HasError\<close>: some diagnostic has error severity.\<close>

definition HasError :: "diagnostic list \<Rightarrow> bool" where
  "HasError ds = list_ex (\<lambda>d. Severity d = SeverityError) ds"

text \<open>
  \<^verbatim>\<open>Diagnostics.Append\<close> of the framework adds the given diagnostics in order and
  leaves out one that is equal to a diagnostic already present.
\<close>

fun Append :: "diagnostic list \<Rightarrow> diagnostic list \<Rightarrow> diagnostic list" where
  "Append ds [] = ds"
| "Append ds (d # rest) = Append (if d \<in> set ds then ds else ds @ [d]) rest"

definition NewAttributeErrorDiagnostic :: "path \<Rightarrow> string \<Rightarrow> string \<Rightarrow> diagnostic" where
  "NewAttributeErrorDiagnostic p summary detail =
     \<lparr>Severity = SeverityError, Path = Some p, Summary = summary, Detail = detail\<rparr>"

definition NewErrorDiagnostic :: "string \<Rightarrow> string \<Rightarrow> diagnostic" where
  "NewErrorDiagnostic summary detail =
     \<lparr>Severity = SeverityError, Path = None, Summary = summary, Detail = detail\<rparr>"

definition AddAttributeError ::
  "path \<Rightarrow> string \<Rightarrow> string \<Rightarrow> diagnostic list \<Rightarrow> diagnostic list" where
  "AddAttributeError p summary detail ds = Append ds [NewAttributeErrorDiagnostic p summary detail]"

definition AddError :: "string \<Rightarrow> string \<Rightarrow> diagnostic list \<Rightarrow> diagnostic list" where
  "AddError summary detail ds = Append ds [NewErrorDiagnostic summary detail]"

subsection \<open>Process environment and boolean literals\<close>

text \<open>\<^verbatim>\<open>os.Getenv\<close> returns the empty string for a variable that is not set.\<close>

type_synonym environ = "string \<rightharpoonup> string"

definition Getenv :: "environ \<Rightarrow> string \<Rightarrow> string" where
  "Getenv env k = (case env k of None \<Rightarrow> '''' | Some v \<Rightarrow> v)"

text \<open>
  \<^verbatim>\<open>strconv.ParseBool\<close> of the Go standard library: the literals it accepts, and
  \<^verbatim>\<open>(false, err)\<close> for any other string.
\<close>

datatype strconv_error = ErrSyntax

definition ParseBool :: "string \<Rightarrow> bool \<times> strconv_error option" where
  "ParseBool str =
     (if str \<in> set [''1'', ''t'', ''T'', ''true'', ''TRUE'', ''True''] then (True, None)
      else if str \<in> set [''0'', ''f'', ''F'', ''false'', ''FALSE'', ''False''] then (False, None)
      else (False, Some ErrSyntax))"

section \<open>The provider model and the session\<close>

type_synonym tag_map = "string \<rightharpoonup> string"

text \<open>
  Modelled from the spec: the element type of the \<^verbatim>\<open>default_tags\<close> set is not in the
  source file. A block either fails in \<^verbatim>\<open>ToTerraformValue\<close> with an error, or yields a
  value; the value either holds a mapping of tag names to tag values, or is one that the
  decoding into the tag set rejects with an error.
\<close>

datatype tftypes_Value = TagsObject tag_map | NotTags string

datatype attr_Value = Element "string + tftypes_Value"

fun ToTerraformValue :: "attr_Value \<Rightarrow> string + tftypes_Value" where
  "ToTerraformValue (Element r) = r"

text \<open>
  Modelled from the spec: the \<^verbatim>\<open>DefaultTags\<close> type and the decoding of one block into it,
  \<^verbatim>\<open>element.As(&tags)\<close>, are not in the source file. The function returns the error, if
  any, and the tag set afterwards. Decoding a block adds its entries to the tag set, an
  entry replacing an earlier one with the same key; a rejected value leaves the tag set as
  it was.
\<close>

fun As_DefaultTags :: "tftypes_Value \<Rightarrow> tag_map \<Rightarrow> string option \<times> tag_map" where
  "As_DefaultTags (TagsObject m) tags = (None, tags ++ m)"
| "As_DefaultTags (NotTags e) tags = (Some e, tags)"

record opennebulaProviderModel =
  Endpoint :: "string tfval"
  FlowEndpoint :: "string tfval"
  Username :: "string tfval"
  Password :: "string tfval"
  Insecure :: "bool tfval"
  DefaultTags :: "attr_Value list"

text \<open>
  The client of the remote API is built from the user name, the password, the endpoint
  and the transport's \<^verbatim>\<open>InsecureSkipVerify\<close>; the flow client from the user name, the
  password and the flow endpoint.
\<close>

record client =
  client_username :: string
  client_password :: string
  client_endpoint :: string
  InsecureSkipVerify :: bool

record flow_client =
  flow_username :: string
  flow_password :: string
  flow_endpoint :: string

datatype controller = NewController client | NewGenericController client flow_client

text \<open>
  The registry of keyed locks is made by \<^verbatim>\<open>utils.NewMutexKV()\<close>, whose code is not in the
  source file; the session holds the fresh registry and \<open>Configure\<close> does nothing else
  with it.
\<close>

datatype MutexKV = NewMutexKV

record 'ver Provider =
  OneVersion :: 'ver
  Mutex :: MutexKV
  Controller :: controller
  Provider_DefaultTags :: tag_map

record 'ver ConfigureResponse =
  Diagnostics :: "diagnostic list"
  DataSourceData :: "'ver Provider option"
  ResourceData :: "'ver Provider option"

section \<open>Configure\<close>

subsection \<open>Messages\<close>

definition unknown_endpoint_detail :: string where
  "unknown_endpoint_detail =
     ''The provider cannot create the OpenNebula XML-RPC client as there is an unknown configuration value for the OpenNebula API endpoint. '' @
     ''Either target apply the source of the value first, set the value statically in the configuration, or use the OPENNEBULA_ENDPOINT environment variable.''"

definition unknown_username_detail :: string where
  "unknown_username_detail =
     ''The provider cannot create the OpenNebula XML-RPC client as there is an unknown configuration value for the OpenNebula API username. '' @
     ''Either target apply the source of the value first, set the value statically in the configuration, or use the OPENNEBULA_USERNAME environment variable.''"

definition unknown_password_detail :: string where
  "unknown_password_detail =
     ''The provider cannot create the OpenNebula XML-RPC client as there is an unknown configuration value for the OpenNebula API password. '' @
     ''Either target apply the source of the value first, set the value statically in the configuration, or use the OPENNEBULA_PASSWORD environment variable.''"

definition insecure_parse_detail :: string where
  "insecure_parse_detail =
     ''The provider cannot create the OpenNebula XML-RPC client as there is an unknown configuration value for the OPENNEBULA_INSECURE environment variable.''"

definition missing_endpoint_detail :: string where
  "missing_endpoint_detail =
     ''The provider cannot create the OpenNebula XML-RPC client as there is a missing or empty value for the OpenNebula API endpoint. '' @
     ''Set the endpoint value in the configuration or use the OPENNEBULA_ENDPOINT environment variable. '' @
     ''If either is already set, ensure the value is not empty.''"

definition missing_username_detail :: string where
  "missing_username_detail =
     ''The provider cannot create the OpenNebula XML-RPC client as there is a missing or empty value for the OpenNebula username. '' @
     ''Set the endpoint value in the configuration or use the OPENNEBULA_USERNAME environment variable. '' @
     ''If either is already set, ensure the value is not empty.''"

definition missing_password_detail :: string where
  "missing_password_detail =
     ''The provider cannot create the OpenNebula XML-RPC client as there is a missing or empty value for the OpenNebula password. '' @
     ''Set the endpoint value in the configuration or use the OPENNEBULA_PASSWORD environment variable. '' @
     ''If either is already set, ensure the value is not empty.''"

subsection \<open>The checks for unknown values (lines 104 to 129)\<close>

definition unknown_checks :: "opennebulaProviderModel \<Rightarrow> diagnostic list \<Rightarrow> diagnostic list" where
  "unknown_checks config ds =
     (let ds = (if IsUnknown (Endpoint config)
                then AddAttributeError (Root ''endpoint'')
                       ''Unknown OpenNebula XML-RPC API endpoint'' unknown_endpoint_detail ds
                else ds);
          ds = (if IsUnknown (Username config)
                then AddAttributeError (Root ''username'')
                       ''Unknown OpenNebula XML-RPC API username'' unknown_username_detail ds
                else ds);
          ds = (if IsUnknown (Password config)
                then AddAttributeError (Root ''password'')
                       ''Unknown OpenNebula XML-RPC API password'' unknown_password_detail ds
                else ds)
      in ds)"

subsection \<open>Environment defaults and declared overrides (lines 138 to 176)\<close>

record resolved =
  endpoint :: string
  flowEndpoint :: string
  username :: string
  password :: string
  insecure :: bool

definition resolve ::
  "environ \<Rightarrow> opennebulaProviderModel \<Rightarrow> diagnostic list \<Rightarrow> resolved \<times> diagnostic list" where
  "resolve env config ds =
     (let endpoint0 = Getenv env ''OPENNEBULA_ENDPOINT'';
          flowEndpoint0 = Getenv env ''OPENNEBULA_FLOW_ENDPOINT'';
          username0 = Getenv env ''OPENNEBULA_USERNAME'';
          password0 = Getenv env ''OPENNEBULA_PASSWORD'';
          insecureStr = Getenv env ''OPENNEBULA_INSECURE'';
          (insecure0, ds) =
            (if length insecureStr > 0
             then (case ParseBool insecureStr of
                     (b, Some err) \<Rightarrow>
                       (b, AddAttributeError (Root ''insecure'')
                             ''Failed to parse boolean value from the OPENNEBULA_INSECURE environment variable''
                             insecure_parse_detail ds)
                   | (b, None) \<Rightarrow> (b, ds))
             else (False, ds));
          endpoint1 = (if \<not> IsNull (Endpoint config) then ValueString (Endpoint config) else endpoint0);
          flowEndpoint1 = (if \<not> IsNull (Endpoint config) then ValueString (Endpoint config) else flowEndpoint0);
          username1 = (if \<not> IsNull (Username config) then ValueString (Username config) else username0);
          password1 = (if \<not> IsNull (Password config) then ValueString (Password config) else password0);
          insecure1 = (if \<not> IsNull (Insecure config) then ValueBool (Insecure config) else insecure0)
      in (\<lparr>endpoint = endpoint1, flowEndpoint = flowEndpoint1, username = username1,
           password = password1, insecure = insecure1\<rparr>, ds))"

subsection \<open>The checks for missing values (lines 181 to 209)\<close>

definition missing_checks :: "resolved \<Rightarrow> diagnostic list \<Rightarrow> diagnostic list" where
  "missing_checks rc ds =
     (let ds = (if endpoint rc = ''''
                then AddAttributeError (Root ''endpoint'')
                       ''Missing OpenNebula XML-RPC endpoint'' missing_endpoint_detail ds
                else ds);
          ds = (if username rc = ''''
                then AddAttributeError (Root ''username'')
                       ''Missing OpenNebula account username'' missing_username_detail ds
                else ds);
          ds = (if password rc = ''''
                then AddAttributeError (Root ''endpoint'')
                       ''Missing OpenNebula account password'' missing_password_detail ds
                else ds)
      in ds)"

subsection \<open>The loop over the default-tag blocks (lines 262 to 274)\<close>

text \<open>
  The state of the loop is the tag set decoded so far and the lines logged; a block that
  fails in either step is logged and the loop continues with the next block.
\<close>

fun tags_loop :: "attr_Value list \<Rightarrow> tag_map \<times> string list \<Rightarrow> tag_map \<times> string list" where
  "tags_loop [] st = st"
| "tags_loop (t # ts) (tags, lg) =
     (case ToTerraformValue t of
        Inl err \<Rightarrow> tags_loop ts (tags, lg @ [''[DEBUG] ToTerraformValue err: '' @ err])
      | Inr element \<Rightarrow>
          (case As_DefaultTags element tags of
             (Some err, tags') \<Rightarrow> tags_loop ts (tags', lg @ [''[DEBUG] As err: '' @ err])
           | (None, tags') \<Rightarrow> tags_loop ts (tags', lg)))"

subsection \<open>The whole function (lines 95 to 286)\<close>

text \<open>
  \<open>diags\<close> and \<open>config\<close> are what \<^verbatim>\<open>req.Config.Get\<close> returns and fills in;
  \<open>SystemVersion\<close> is the remote version query made through the client and \<open>NewVersion\<close>
  the version parser, each returning \<open>Inl\<close> of the error's text when it fails. The response
  starts with no diagnostics and no data. The lines written to the log outside the tag loop
  are not part of the response and are left out.
\<close>

definition failed :: "diagnostic list \<Rightarrow> 'ver ConfigureResponse" where
  "failed ds = \<lparr>Diagnostics = ds, DataSourceData = None, ResourceData = None\<rparr>"

definition Configure ::
  "(client \<Rightarrow> string + string) \<Rightarrow> (string \<Rightarrow> string + 'ver) \<Rightarrow> environ \<Rightarrow>
   diagnostic list \<Rightarrow> opennebulaProviderModel \<Rightarrow> 'ver ConfigureResponse" where
  "Configure SystemVersion NewVersion env diags config =
     (let d1 = Append [] diags in
      if HasError d1 then failed d1 else
      let d2 = unknown_checks config d1 in
      if HasError d2 then failed d2 else
      let (rc, d3) = resolve env config d2;
          d4 = missing_checks rc d3 in
      if HasError d4 then failed d4 else
      let cl = \<lparr>client_username = username rc, client_password = password rc,
                 client_endpoint = endpoint rc, InsecureSkipVerify = insecure rc\<rparr> in
      case SystemVersion cl of
        Inl err \<Rightarrow> failed (AddError ''Failed to get OpenNebula release number'' err d4)
      | Inr versionStr \<Rightarrow>
          (case NewVersion versionStr of
             Inl err \<Rightarrow> failed (AddError ''Failed to parse OpenNebula version'' err d4)
           | Inr version \<Rightarrow>
               (let ctrl =
                      (if length (flowEndpoint rc) > 0
                       then NewGenericController cl
                              \<lparr>flow_username = username rc, flow_password = password rc,
                               flow_endpoint = flowEndpoint rc\<rparr>
                       else NewController cl);
                    tags = fst (tags_loop (DefaultTags config) (Map.empty, []));
                    cfg = \<lparr>OneVersion = version, Mutex = NewMutexKV, Controller = ctrl,
                           Provider_DefaultTags = (if tags \<noteq> Map.empty then tags else Map.empty)\<rparr>
                in \<lparr>Diagnostics = d4, DataSourceData = Some cfg, ResourceData = Some cfg\<rparr>)))"

section \<open>Notions used to state the properties\<close>

text \<open>The diagnostics that the checks of \<open>Configure\<close> add, by name.\<close>

abbreviation unknown_endpoint_diag :: diagnostic where
  "unknown_endpoint_diag \<equiv> NewAttributeErrorDiagnostic (Root ''endpoint'')
     ''Unknown OpenNebula XML-RPC API endpoint'' unknown_endpoint_detail"

abbreviation unknown_username_diag :: diagnostic where
  "unknown_username_diag \<equiv> NewAttributeErrorDiagnostic (Root ''username'')
     ''Unknown OpenNebula XML-RPC API username'' unknown_username_detail"

abbreviation unknown_password_diag :: diagnostic where
  "unknown_password_diag \<equiv> NewAttributeErrorDiagnostic (Root ''password'')
     ''Unknown OpenNebula XML-RPC API password'' unknown_password_detail"

abbreviation insecure_parse_diag :: diagnostic where
  "insecure_parse_diag \<equiv> NewAttributeErrorDiagnostic (Root ''insecure'')
     ''Failed to parse boolean value from the OPENNEBULA_INSECURE environment variable''
     insecure_parse_detail"

abbreviation missing_endpoint_diag :: diagnostic where
  "missing_endpoint_diag \<equiv> NewAttributeErrorDiagnostic (Root ''endpoint'')
     ''Missing OpenNebula XML-RPC endpoint'' missing_endpoint_detail"

abbreviation missing_username_diag :: diagnostic where
  "missing_username_diag \<equiv> NewAttributeErrorDiagnostic (Root ''username'')
     ''Missing OpenNebula account username'' missing_username_detail"

abbreviation missing_password_diag :: diagnostic where
  "missing_password_diag \<equiv> NewAttributeErrorDiagnostic (Root ''endpoint'')
     ''Missing OpenNebula account password'' missing_password_detail"

text \<open>
  Whether the parse of line 148 is made and fails; the values resolved by lines 138 to
  176, which do not depend on the diagnostics; the diagnostics held when the check of
  line 211 is reached, that is, when neither the check of line 100 nor the check of
  line 131 has returned; and the client built at line 220 from the resolved values.
\<close>

definition parse_failed :: "environ \<Rightarrow> bool" where
  "parse_failed env \<longleftrightarrow> Getenv env ''OPENNEBULA_INSECURE'' \<noteq> '''' \<and>
     snd (ParseBool (Getenv env ''OPENNEBULA_INSECURE'')) \<noteq> None"

definition resolved_of :: "environ \<Rightarrow> opennebulaProviderModel \<Rightarrow> resolved" where
  "resolved_of env config = fst (resolve env config [])"

definition checked_diags :: "environ \<Rightarrow> diagnostic list \<Rightarrow> opennebulaProviderModel \<Rightarrow> diagnostic list" where
  "checked_diags env diags config =
     (let d2 = unknown_checks config (Append [] diags);
          (rc, d3) = resolve env config d2
      in missing_checks rc d3)"

definition client_of :: "resolved \<Rightarrow> client" where
  "client_of rc = \<lparr>client_username = username rc, client_password = password rc,
                    client_endpoint = endpoint rc, InsecureSkipVerify = insecure rc\<rparr>"

text \<open>
  The aggregation of tag blocks in the spec's words: the blocks that decode, in declared
  order, and for each key the value of the last such block that has the key.
\<close>

fun decodable :: "attr_Value list \<Rightarrow> tag_map list" where
  "decodable [] = []"
| "decodable (Element (Inr (TagsObject m)) # ts) = m # decodable ts"
| "decodable (t # ts) = decodable ts"

definition last_wins :: "tag_map list \<Rightarrow> tag_map" where
  "last_wins ms k =
     (let having = filter (\<lambda>m. m k \<noteq> None) ms
      in if having = [] then None else last having k)"

section \<open>Facts about diagnostics and the checks\<close>

lemma HasError_iff: "HasError ds \<longleftrightarrow> (\<exists>d\<in>set ds. Severity d = SeverityError)"
  by (simp add: HasError_def list_ex_iff)

lemma HasError_Nil [simp]: "\<not> HasError []"
  by (simp add: HasError_def)

lemma HasError_Cons [simp]: "HasError (d # ds) \<longleftrightarrow> Severity d = SeverityError \<or> HasError ds"
  by (simp add: HasError_def)

lemma HasError_append [simp]: "HasError (xs @ ys) \<longleftrightarrow> HasError xs \<or> HasError ys"
  by (auto simp: HasError_iff)

lemma HasError_Append [simp]: "HasError (Append ds es) \<longleftrightarrow> HasError ds \<or> HasError es"
  by (induction es arbitrary: ds) (auto simp: HasError_iff)

lemma Severity_attribute_error [simp]: "Severity (NewAttributeErrorDiagnostic p s d) = SeverityError"
  by (simp add: NewAttributeErrorDiagnostic_def)

lemma Path_attribute_error [simp]: "Path (NewAttributeErrorDiagnostic p s d) = Some p"
  by (simp add: NewAttributeErrorDiagnostic_def)

lemma Summary_attribute_error [simp]: "Summary (NewAttributeErrorDiagnostic p s d) = s"
  by (simp add: NewAttributeErrorDiagnostic_def)

lemma Severity_error [simp]: "Severity (NewErrorDiagnostic s d) = SeverityError"
  by (simp add: NewErrorDiagnostic_def)

lemma Path_error [simp]: "Path (NewErrorDiagnostic s d) = None"
  by (simp add: NewErrorDiagnostic_def)

lemma error_notin: "\<not> HasError ds \<Longrightarrow> Severity d = SeverityError \<Longrightarrow> d \<notin> set ds"
  by (auto simp: HasError_iff)

lemma filter_errors_none: "\<not> HasError ds \<Longrightarrow> filter (\<lambda>d. Severity d = SeverityError) ds = []"
  by (induction ds) auto

lemma HasError_unknown_checks:
  "HasError (unknown_checks c ds) \<longleftrightarrow>
     HasError ds \<or> IsUnknown (Endpoint c) \<or> IsUnknown (Username c) \<or> IsUnknown (Password c)"
  by (auto simp: unknown_checks_def AddAttributeError_def Let_def simp del: Append.simps)

lemma unknown_checks_eq:
  assumes "\<not> HasError ds"
  shows "unknown_checks c ds = ds @
     (if IsUnknown (Endpoint c) then [unknown_endpoint_diag] else []) @
     (if IsUnknown (Username c) then [unknown_username_diag] else []) @
     (if IsUnknown (Password c) then [unknown_password_diag] else [])"
proof -
  have "d \<notin> set ds" if "Severity d = SeverityError" for d
    using assms that by (rule error_notin)
  then show ?thesis
    by (simp add: unknown_checks_def AddAttributeError_def Let_def NewAttributeErrorDiagnostic_def)
qed

lemma unknown_checks_id:
  "\<not> IsUnknown (Endpoint c) \<Longrightarrow> \<not> IsUnknown (Username c) \<Longrightarrow> \<not> IsUnknown (Password c) \<Longrightarrow>
   unknown_checks c ds = ds"
  by (simp add: unknown_checks_def)

lemma fst_resolve [simp]: "fst (resolve env c ds) = resolved_of env c"
  by (simp add: resolved_of_def resolve_def Let_def split: prod.splits option.splits)

lemma snd_resolve:
  assumes "\<not> HasError ds"
  shows "snd (resolve env c ds) = ds @ (if parse_failed env then [insecure_parse_diag] else [])"
proof -
  have "insecure_parse_diag \<notin> set ds"
    using assms by (rule error_notin) simp
  then show ?thesis
    by (auto simp: resolve_def Let_def AddAttributeError_def parse_failed_def split: prod.splits option.splits)
qed

lemma missing_checks_eq:
  assumes "\<not> HasError ds"
  shows "missing_checks rc (ds @ (if b then [insecure_parse_diag] else [])) =
     ds @ (if b then [insecure_parse_diag] else []) @
     (if endpoint rc = '''' then [missing_endpoint_diag] else []) @
     (if username rc = '''' then [missing_username_diag] else []) @
     (if password rc = '''' then [missing_password_diag] else [])"
proof -
  have "d \<notin> set ds" if "Severity d = SeverityError" for d
    using assms that by (rule error_notin)
  then show ?thesis
    by (simp add: missing_checks_def AddAttributeError_def Let_def NewAttributeErrorDiagnostic_def)
qed

lemma HasError_missing_checks:
  "HasError (missing_checks rc ds) \<longleftrightarrow>
     HasError ds \<or> endpoint rc = '''' \<or> username rc = '''' \<or> password rc = ''''"
  by (auto simp: missing_checks_def AddAttributeError_def Let_def simp del: Append.simps)

lemma HasError_snd_resolve:
  "HasError (snd (resolve env c ds)) \<longleftrightarrow> HasError ds \<or> parse_failed env"
  by (auto simp: resolve_def Let_def AddAttributeError_def parse_failed_def
      split: prod.splits option.splits simp del: Append.simps)

section \<open>The response of Configure, case by case\<close>

lemma HasError_checked_diags:
  "HasError (checked_diags env diags c) \<longleftrightarrow>
     HasError diags \<or> IsUnknown (Endpoint c) \<or> IsUnknown (Username c) \<or> IsUnknown (Password c) \<or>
     parse_failed env \<or> endpoint (resolved_of env c) = '''' \<or>
     username (resolved_of env c) = '''' \<or> password (resolved_of env c) = ''''"
  by (simp add: checked_diags_def Let_def case_prod_beta HasError_missing_checks
      HasError_snd_resolve HasError_unknown_checks disj_commute disj_left_commute)

lemma checked_diags_eq:
  assumes "\<not> HasError diags"
    and "\<not> IsUnknown (Endpoint c)" "\<not> IsUnknown (Username c)" "\<not> IsUnknown (Password c)"
  shows "checked_diags env diags c = Append [] diags @
     (if parse_failed env then [insecure_parse_diag] else []) @
     (if endpoint (resolved_of env c) = '''' then [missing_endpoint_diag] else []) @
     (if username (resolved_of env c) = '''' then [missing_username_diag] else []) @
     (if password (resolved_of env c) = '''' then [missing_password_diag] else [])"
proof -
  have ne: "\<not> HasError (Append [] diags)"
    using assms(1) by simp
  have "checked_diags env diags c =
      missing_checks (resolved_of env c) (snd (resolve env c (Append [] diags)))"
    using assms(2-4) by (simp add: checked_diags_def Let_def case_prod_beta unknown_checks_id)
  also have "\<dots> = missing_checks (resolved_of env c)
      (Append [] diags @ (if parse_failed env then [insecure_parse_diag] else []))"
    by (simp only: snd_resolve [OF ne])
  finally show ?thesis
    by (simp only: missing_checks_eq [OF ne])
qed

lemma Configure_decode_error:
  "HasError diags \<Longrightarrow> Configure SV NV env diags c = failed (Append [] diags)"
  by (simp add: Configure_def)

lemma Configure_unknown:
  assumes "\<not> HasError diags"
    and "IsUnknown (Endpoint c) \<or> IsUnknown (Username c) \<or> IsUnknown (Password c)"
  shows "Configure SV NV env diags c = failed (unknown_checks c (Append [] diags))"
  using assms by (simp add: Configure_def Let_def HasError_unknown_checks)

lemma Configure_invalid:
  assumes "\<not> HasError diags"
    and "\<not> IsUnknown (Endpoint c)" "\<not> IsUnknown (Username c)" "\<not> IsUnknown (Password c)"
    and "HasError (checked_diags env diags c)"
  shows "Configure SV NV env diags c = failed (checked_diags env diags c)"
  using assms
  by (simp add: Configure_def Let_def HasError_unknown_checks checked_diags_def case_prod_beta)

lemma checked_diags_ok:
  assumes "\<not> HasError (checked_diags env diags c)"
  shows "checked_diags env diags c = Append [] diags"
proof -
  from assms have h: "\<not> HasError diags" "\<not> IsUnknown (Endpoint c)" "\<not> IsUnknown (Username c)"
    "\<not> IsUnknown (Password c)" "\<not> parse_failed env" "endpoint (resolved_of env c) \<noteq> ''''"
    "username (resolved_of env c) \<noteq> ''''" "password (resolved_of env c) \<noteq> ''''"
    by (simp_all add: HasError_checked_diags)
  show ?thesis
    using h(5-8) by (simp add: checked_diags_eq [OF h(1-4)])
qed

lemma Configure_valid:
  assumes "\<not> HasError (checked_diags env diags c)"
  shows "Configure SV NV env diags c =
     (case SV (client_of (resolved_of env c)) of
        Inl err \<Rightarrow> failed (AddError ''Failed to get OpenNebula release number'' err (Append [] diags))
      | Inr versionStr \<Rightarrow>
          (case NV versionStr of
             Inl err \<Rightarrow> failed (AddError ''Failed to parse OpenNebula version'' err (Append [] diags))
           | Inr version \<Rightarrow>
               \<lparr>Diagnostics = Append [] diags,
                DataSourceData = Some \<lparr>OneVersion = version, Mutex = NewMutexKV,
                  Controller = (if flowEndpoint (resolved_of env c) \<noteq> ''''
                     then NewGenericController (client_of (resolved_of env c))
                       \<lparr>flow_username = username (resolved_of env c),
                        flow_password = password (resolved_of env c),
                        flow_endpoint = flowEndpoint (resolved_of env c)\<rparr>
                     else NewController (client_of (resolved_of env c))),
                  Provider_DefaultTags = fst (tags_loop (DefaultTags c) (Map.empty, []))\<rparr>,
                ResourceData = Some \<lparr>OneVersion = version, Mutex = NewMutexKV,
                  Controller = (if flowEndpoint (resolved_of env c) \<noteq> ''''
                     then NewGenericController (client_of (resolved_of env c))
                       \<lparr>flow_username = username (resolved_of env c),
                        flow_password = password (resolved_of env c),
                        flow_endpoint = flowEndpoint (resolved_of env c)\<rparr>
                     else NewController (client_of (resolved_of env c))),
                  Provider_DefaultTags = fst (tags_loop (DefaultTags c) (Map.empty, []))\<rparr>\<rparr>))"
proof -
  from assms have h: "\<not> HasError diags" "\<not> IsUnknown (Endpoint c)" "\<not> IsUnknown (Username c)"
    "\<not> IsUnknown (Password c)"
    by (simp_all add: HasError_checked_diags)
  have d2: "unknown_checks c (Append [] diags) = Append [] diags"
    using h(2-4) by (rule unknown_checks_id)
  have d4: "missing_checks (resolved_of env c) (snd (resolve env c (Append [] diags))) = Append [] diags"
    using checked_diags_ok [OF assms] by (simp add: checked_diags_def Let_def case_prod_beta d2)
  show ?thesis
    using h(1)
    by (simp add: Configure_def Let_def case_prod_beta d2 d4 client_of_def
        split: sum.splits)
qed

lemma AddError_fresh:
  "\<not> HasError ds \<Longrightarrow> AddError s d ds = ds @ [NewErrorDiagnostic s d]"
  by (simp add: AddError_def error_notin)

lemma failed_sel [simp]:
  "Diagnostics (failed ds) = ds" "DataSourceData (failed ds) = None" "ResourceData (failed ds) = None"
  by (simp_all add: failed_def)

lemma ParseBool_error: "snd (ParseBool s) \<noteq> None \<Longrightarrow> fst (ParseBool s) = False"
  by (simp add: ParseBool_def split: if_splits)

lemma insecure_resolved:
  "insecure (resolved_of env c) =
     (if \<not> IsNull (Insecure c) then ValueBool (Insecure c)
      else Getenv env ''OPENNEBULA_INSECURE'' \<noteq> '''' \<and> fst (ParseBool (Getenv env ''OPENNEBULA_INSECURE'')))"
  by (auto simp: resolved_of_def resolve_def Let_def split: prod.splits option.splits)

lemma resolved_of_eq:
  "resolved_of env c =
     \<lparr>endpoint = (if \<not> IsNull (Endpoint c) then ValueString (Endpoint c) else Getenv env ''OPENNEBULA_ENDPOINT''),
      flowEndpoint = (if \<not> IsNull (Endpoint c) then ValueString (Endpoint c) else Getenv env ''OPENNEBULA_FLOW_ENDPOINT''),
      username = (if \<not> IsNull (Username c) then ValueString (Username c) else Getenv env ''OPENNEBULA_USERNAME''),
      password = (if \<not> IsNull (Password c) then ValueString (Password c) else Getenv env ''OPENNEBULA_PASSWORD''),
      insecure = (if \<not> IsNull (Insecure c) then ValueBool (Insecure c)
                  else Getenv env ''OPENNEBULA_INSECURE'' \<noteq> '''' \<and>
                       fst (ParseBool (Getenv env ''OPENNEBULA_INSECURE'')))\<rparr>"
  by (simp add: resolved_of_def resolve_def Let_def split: prod.splits option.splits)

lemma resolve_FlowEndpoint [simp]: "resolve env (c\<lparr>FlowEndpoint := x\<rparr>) ds = resolve env c ds"
  by (simp add: resolve_def Let_def case_prod_beta)

lemma unknown_checks_FlowEndpoint [simp]: "unknown_checks (c\<lparr>FlowEndpoint := x\<rparr>) ds = unknown_checks c ds"
  by (simp add: unknown_checks_def)

lemma Configure_FlowEndpoint:
  "Configure SV NV env diags (c\<lparr>FlowEndpoint := x\<rparr>) = Configure SV NV env diags c"
  by (simp add: Configure_def Let_def case_prod_beta cong: sum.case_cong)

lemma set_Append [simp]: "set (Append ds es) = set ds \<union> set es"
  by (induction es arbitrary: ds) auto

lemma resolve_insecure_unknown:
  "Insecure c = Unknown \<Longrightarrow> resolve env (c\<lparr>Insecure := Known False\<rparr>) ds = resolve env c ds"
  by (simp add: resolve_def Let_def)

lemma unknown_checks_Insecure [simp]: "unknown_checks (c\<lparr>Insecure := x\<rparr>) ds = unknown_checks c ds"
  by (simp add: unknown_checks_def)

lemma Configure_diag_origin:
  assumes "d \<in> set (Diagnostics (Configure SV NV env diags c))"
    and "Path d = Some (Root ''insecure'')"
  shows "d \<in> set diags \<or> (d = insecure_parse_diag \<and> parse_failed env)"
proof (cases "HasError (checked_diags env diags c)")
  case True
  show ?thesis
  proof (cases "HasError diags")
    case True
    with assms show ?thesis by (simp add: Configure_decode_error)
  next
    case ne: False
    then have ne': "\<not> HasError (Append [] diags)" by simp
    show ?thesis
    proof (cases "IsUnknown (Endpoint c) \<or> IsUnknown (Username c) \<or> IsUnknown (Password c)")
      case True
      have "Diagnostics (Configure SV NV env diags c) = unknown_checks c (Append [] diags)"
        using ne True by (simp add: Configure_unknown)
      with assms show ?thesis
        by (auto simp: unknown_checks_eq [OF ne'] split: if_splits)
    next
      case False
      then have k: "\<not> IsUnknown (Endpoint c)" "\<not> IsUnknown (Username c)" "\<not> IsUnknown (Password c)"
        by simp_all
      have "Diagnostics (Configure SV NV env diags c) = checked_diags env diags c"
        using ne k True by (simp add: Configure_invalid)
      with assms show ?thesis
        by (auto simp: checked_diags_eq [OF ne k] split: if_splits)
    qed
  qed
next
  case False
  then have ne: "\<not> HasError (Append [] diags)"
    by (simp add: HasError_checked_diags)
  from assms show ?thesis
    by (auto simp: Configure_valid [OF False] AddError_fresh [OF ne] split: sum.splits)
qed

section \<open>The loop over the tag blocks\<close>

lemma tags_loop_fst: "fst (tags_loop ts (tags, lg)) = foldl (++) tags (decodable ts)"
proof (induction ts arbitrary: tags lg)
  case Nil
  show ?case by simp
next
  case (Cons t ts)
  obtain r where t: "t = Element r" by (cases t)
  show ?case
  proof (cases r)
    case (Inl e)
    with t Cons show ?thesis by simp
  next
    case (Inr v)
    with t Cons show ?thesis by (cases v) simp_all
  qed
qed

lemma tags_loop_log:
  "length (snd (tags_loop ts (tags, lg))) + length (decodable ts) = length lg + length ts"
proof (induction ts arbitrary: tags lg)
  case Nil
  show ?case by simp
next
  case (Cons t ts)
  obtain r where t: "t = Element r" by (cases t)
  show ?case
  proof (cases r)
    case (Inl e)
    with t Cons [of tags "lg @ [''[DEBUG] ToTerraformValue err: '' @ e]"] show ?thesis by simp
  next
    case (Inr v)
    show ?thesis
    proof (cases v)
      case (TagsObject m)
      with t Inr Cons [of "tags ++ m" lg] show ?thesis by simp
    next
      case (NotTags e)
      with t Inr Cons [of tags "lg @ [''[DEBUG] As err: '' @ e]"] show ?thesis by simp
    qed
  qed
qed

lemma last_wins_Nil [simp]: "last_wins [] = Map.empty"
  by (rule ext) (simp add: last_wins_def)

lemma last_wins_snoc: "last_wins (ms @ [m]) = last_wins ms ++ m"
proof (rule ext)
  fix k
  show "last_wins (ms @ [m]) k = (last_wins ms ++ m) k"
  proof (cases "m k")
    case None
    then show ?thesis by (simp add: last_wins_def map_add_def)
  next
    case (Some v)
    then show ?thesis by (simp add: last_wins_def map_add_def)
  qed
qed

lemma foldl_last_wins: "foldl (++) tags ms = tags ++ last_wins ms"
  by (induction ms rule: rev_induct) (simp_all add: last_wins_snoc)

section \<open>The properties\<close>

text \<open>
  C1. What lines 158 to 176 resolve. With a declared endpoint \<open>https://a\<close> and a declared
  flow endpoint \<open>https://flow\<close> the flow client is built against \<open>https://a\<close>; with no
  declared endpoint, the endpoint in the environment and a declared flow endpoint, the
  resolved flow endpoint is empty. In general the resolved flow endpoint is the declared
  \<open>endpoint\<close> when that is not null and the \<^verbatim>\<open>OPENNEBULA_FLOW_ENDPOINT\<close> variable otherwise,
  and the response does not depend on the declared \<open>flow_endpoint\<close> at all.
\<close>

theorem Configure_flow_endpoint_is_endpoint:
  "Configure (\<lambda>cl. Inr ''6.8.0'') Inr Map.empty []
      \<lparr>Endpoint = Known ''https://a'', FlowEndpoint = Known ''https://flow'',
       Username = Known ''u'', Password = Known ''p'', Insecure = Null, DefaultTags = []\<rparr>
     = \<lparr>Diagnostics = [],
        DataSourceData = Some \<lparr>OneVersion = ''6.8.0'', Mutex = NewMutexKV,
          Controller = NewGenericController
            \<lparr>client_username = ''u'', client_password = ''p'', client_endpoint = ''https://a'',
             InsecureSkipVerify = False\<rparr>
            \<lparr>flow_username = ''u'', flow_password = ''p'', flow_endpoint = ''https://a''\<rparr>,
          Provider_DefaultTags = Map.empty\<rparr>,
        ResourceData = Some \<lparr>OneVersion = ''6.8.0'', Mutex = NewMutexKV,
          Controller = NewGenericController
            \<lparr>client_username = ''u'', client_password = ''p'', client_endpoint = ''https://a'',
             InsecureSkipVerify = False\<rparr>
            \<lparr>flow_username = ''u'', flow_password = ''p'', flow_endpoint = ''https://a''\<rparr>,
          Provider_DefaultTags = Map.empty\<rparr>\<rparr> \<and>
   flowEndpoint (resolved_of [''OPENNEBULA_ENDPOINT'' \<mapsto> ''https://a'']
      \<lparr>Endpoint = Null, FlowEndpoint = Known ''https://flow'',
       Username = Known ''u'', Password = Known ''p'', Insecure = Null, DefaultTags = []\<rparr>)
     = '''' \<and>
   flowEndpoint (resolved_of env c) =
     (if IsNull (Endpoint c) then Getenv env ''OPENNEBULA_FLOW_ENDPOINT''
      else ValueString (Endpoint c)) \<and>
   Configure SV NV env diags (c\<lparr>FlowEndpoint := x\<rparr>) = Configure SV NV env diags c"
proof -
  let ?c = "\<lparr>Endpoint = Known ''https://a'', FlowEndpoint = Known ''https://flow'',
       Username = Known ''u'', Password = Known ''p'', Insecure = Null, DefaultTags = []\<rparr>"
  have h: "\<not> HasError (checked_diags Map.empty [] ?c)"
    by (simp add: HasError_checked_diags resolved_of_eq parse_failed_def Getenv_def)
  have a: "Configure (\<lambda>cl. Inr ''6.8.0'') Inr Map.empty [] ?c
     = \<lparr>Diagnostics = [],
        DataSourceData = Some \<lparr>OneVersion = ''6.8.0'', Mutex = NewMutexKV,
          Controller = NewGenericController
            \<lparr>client_username = ''u'', client_password = ''p'', client_endpoint = ''https://a'',
             InsecureSkipVerify = False\<rparr>
            \<lparr>flow_username = ''u'', flow_password = ''p'', flow_endpoint = ''https://a''\<rparr>,
          Provider_DefaultTags = Map.empty\<rparr>,
        ResourceData = Some \<lparr>OneVersion = ''6.8.0'', Mutex = NewMutexKV,
          Controller = NewGenericController
            \<lparr>client_username = ''u'', client_password = ''p'', client_endpoint = ''https://a'',
             InsecureSkipVerify = False\<rparr>
            \<lparr>flow_username = ''u'', flow_password = ''p'', flow_endpoint = ''https://a''\<rparr>,
          Provider_DefaultTags = Map.empty\<rparr>\<rparr>"
    by (simp add: Configure_valid [OF h] resolved_of_eq client_of_def Getenv_def)
  have b: "flowEndpoint (resolved_of [''OPENNEBULA_ENDPOINT'' \<mapsto> ''https://a'']
      \<lparr>Endpoint = Null, FlowEndpoint = Known ''https://flow'',
       Username = Known ''u'', Password = Known ''p'', Insecure = Null, DefaultTags = []\<rparr>) = ''''"
    by (simp add: resolved_of_eq Getenv_def)
  have c: "flowEndpoint (resolved_of env c) =
     (if IsNull (Endpoint c) then Getenv env ''OPENNEBULA_FLOW_ENDPOINT''
      else ValueString (Endpoint c))"
    by (simp add: resolved_of_eq)
  show ?thesis
    by (simp only: a b c Configure_FlowEndpoint simp_thms)
qed

text \<open>
  C2. The tag set left by the loop over the blocks is, for each key, the value of the last
  block in declared order that decodes and has the key: the union of the decodable blocks
  folded from left to right, a later entry replacing an earlier one of the same key. A
  block that does not decode is skipped with one line logged. The blocks add no diagnostic
  and do not stop \<open>Configure\<close>: on the path with a parsed version the response holds the
  diagnostics of the decode only and a session with that tag set.
\<close>

theorem default_tags_last_wins:
  "fst (tags_loop ts (Map.empty, [])) = last_wins (decodable ts) \<and>
   fst (tags_loop ts (Map.empty, [])) = foldl (++) Map.empty (decodable ts) \<and>
   length (snd (tags_loop ts (Map.empty, []))) + length (decodable ts) = length ts \<and>
   (\<not> HasError (checked_diags env diags c) \<and> SV (client_of (resolved_of env c)) = Inr v \<and>
    NV v = Inr ver \<longrightarrow>
      Diagnostics (Configure SV NV env diags c) = Append [] diags \<and>
      (\<exists>cfg. DataSourceData (Configure SV NV env diags c) = Some cfg \<and>
             ResourceData (Configure SV NV env diags c) = Some cfg \<and>
             Provider_DefaultTags cfg = last_wins (decodable (DefaultTags c))))"
proof -
  have a: "fst (tags_loop xs (Map.empty, [])) = last_wins (decodable xs)" for xs
    by (simp add: tags_loop_fst foldl_last_wins)
  have b: "fst (tags_loop ts (Map.empty, [])) = foldl (++) Map.empty (decodable ts)"
    by (rule tags_loop_fst)
  have c: "length (snd (tags_loop ts (Map.empty, []))) + length (decodable ts) = length ts"
    using tags_loop_log [of ts Map.empty "[]"] by simp
  have d: "Diagnostics (Configure SV NV env diags c) = Append [] diags \<and>
      (\<exists>cfg. DataSourceData (Configure SV NV env diags c) = Some cfg \<and>
             ResourceData (Configure SV NV env diags c) = Some cfg \<and>
             Provider_DefaultTags cfg = last_wins (decodable (DefaultTags c)))"
    if h: "\<not> HasError (checked_diags env diags c)" "SV (client_of (resolved_of env c)) = Inr v"
      "NV v = Inr ver"
    using h(2,3) by (simp add: Configure_valid [OF h(1)] a)
  show ?thesis
    using a b c d by blast
qed

theorem default_tags_last_wins_witness:
  "fst (tags_loop [Element (Inr (TagsObject [''a'' \<mapsto> ''1'', ''b'' \<mapsto> ''2''])),
                   Element (Inr (TagsObject [''b'' \<mapsto> ''3'']))] (Map.empty, [])) =
     [''a'' \<mapsto> ''1'', ''b'' \<mapsto> ''3''] \<and>
   last_wins (decodable [Element (Inr (TagsObject [''a'' \<mapsto> ''1'', ''b'' \<mapsto> ''2''])),
                         Element (Inr (TagsObject [''b'' \<mapsto> ''3'']))]) =
     [''a'' \<mapsto> ''1'', ''b'' \<mapsto> ''3''] \<and>
   last_wins (decodable [Element (Inl ''malformed''), Element (Inr (TagsObject [''x'' \<mapsto> ''9'']))]) =
     [''x'' \<mapsto> ''9''] \<and>
   snd (tags_loop [Element (Inl ''malformed''), Element (Inr (TagsObject [''x'' \<mapsto> ''9'']))]
     (Map.empty, [])) = [''[DEBUG] ToTerraformValue err: malformed''] \<and>
   \<not> HasError (checked_diags Map.empty []
      \<lparr>Endpoint = Known ''https://a'', FlowEndpoint = Null, Username = Known ''u'',
       Password = Known ''p'', Insecure = Null,
       DefaultTags = [Element (Inl ''malformed''), Element (Inr (TagsObject [''x'' \<mapsto> ''9'']))]\<rparr>) \<and>
   Diagnostics (Configure (\<lambda>cl. Inr ''6.8.0'') Inr Map.empty []
      \<lparr>Endpoint = Known ''https://a'', FlowEndpoint = Null, Username = Known ''u'',
       Password = Known ''p'', Insecure = Null,
       DefaultTags = [Element (Inl ''malformed''), Element (Inr (TagsObject [''x'' \<mapsto> ''9'']))]\<rparr>) = [] \<and>
   (\<exists>cfg. DataSourceData (Configure (\<lambda>cl. Inr ''6.8.0'') Inr Map.empty []
      \<lparr>Endpoint = Known ''https://a'', FlowEndpoint = Null, Username = Known ''u'',
       Password = Known ''p'', Insecure = Null,
       DefaultTags = [Element (Inl ''malformed''), Element (Inr (TagsObject [''x'' \<mapsto> ''9'']))]\<rparr>) =
        Some cfg \<and> Provider_DefaultTags cfg = [''x'' \<mapsto> ''9''])"
proof -
  let ?ts = "[Element (Inr (TagsObject [''a'' \<mapsto> ''1'', ''b'' \<mapsto> ''2''])),
              Element (Inr (TagsObject [''b'' \<mapsto> ''3'']))]"
  let ?us = "[Element (Inl ''malformed''), Element (Inr (TagsObject [''x'' \<mapsto> ''9'']))]"
  let ?c = "\<lparr>Endpoint = Known ''https://a'', FlowEndpoint = Null, Username = Known ''u'',
       Password = Known ''p'', Insecure = Null, DefaultTags = ?us\<rparr>"
  have e1: "fst (tags_loop ?ts (Map.empty, [])) = [''a'' \<mapsto> ''1'', ''b'' \<mapsto> ''3'']"
    by simp
  have e2: "fst (tags_loop ?us (Map.empty, [])) = [''x'' \<mapsto> ''9'']"
    by simp
  have e3: "snd (tags_loop ?us (Map.empty, [])) = [''[DEBUG] ToTerraformValue err: malformed'']"
    by simp
  have h: "\<not> HasError (checked_diags Map.empty [] ?c)"
    by (simp add: HasError_checked_diags resolved_of_eq parse_failed_def Getenv_def)
  have l1: "last_wins (decodable ?ts) = [''a'' \<mapsto> ''1'', ''b'' \<mapsto> ''3'']"
    unfolding default_tags_last_wins [where ts = ?ts, THEN conjunct1, symmetric] by (rule e1)
  have l2: "last_wins (decodable ?us) = [''x'' \<mapsto> ''9'']"
    unfolding default_tags_last_wins [where ts = ?us, THEN conjunct1, symmetric] by (rule e2)
  from default_tags_last_wins [where env = Map.empty and diags = "[]" and c = ?c
      and SV = "\<lambda>cl. Inr ''6.8.0''" and NV = "Inr :: string \<Rightarrow> string + string"
      and v = "''6.8.0''" and ver = "''6.8.0''"] h
  have "Diagnostics (Configure (\<lambda>cl. Inr ''6.8.0'') Inr Map.empty [] ?c) = [] \<and>
      (\<exists>cfg. DataSourceData (Configure (\<lambda>cl. Inr ''6.8.0'') Inr Map.empty [] ?c) = Some cfg \<and>
         Provider_DefaultTags cfg = [''x'' \<mapsto> ''9''])"
    using l2 by auto
  then show ?thesis
    using e1 e3 l1 l2 h by simp
qed

text \<open>
  C3. What lines 201 to 209 add. With a declared endpoint and user name and no password
  anywhere, the only diagnostic of the response is the one for the missing password, and
  its path is \<open>endpoint\<close>: no diagnostic has the path \<open>password\<close>. The check for an unknown
  password at line 122 does use the path \<open>password\<close>.
\<close>

theorem Configure_missing_password_scoped_to_endpoint:
  "Configure SV NV Map.empty []
      \<lparr>Endpoint = Known ''https://a'', FlowEndpoint = Null,
       Username = Known ''u'', Password = Null, Insecure = Null, DefaultTags = []\<rparr>
     = \<lparr>Diagnostics = [\<lparr>Severity = SeverityError, Path = Some (Root ''endpoint''),
                         Summary = ''Missing OpenNebula account password'',
                         Detail = missing_password_detail\<rparr>],
        DataSourceData = None, ResourceData = None\<rparr> \<and>
   filter (\<lambda>d. Path d = Some (Root ''password''))
     (Diagnostics (Configure SV NV Map.empty []
        \<lparr>Endpoint = Known ''https://a'', FlowEndpoint = Null,
         Username = Known ''u'', Password = Null, Insecure = Null, DefaultTags = []\<rparr>)) = [] \<and>
   Diagnostics (Configure SV NV Map.empty []
      \<lparr>Endpoint = Known ''https://a'', FlowEndpoint = Null,
       Username = Known ''u'', Password = Unknown, Insecure = Null, DefaultTags = []\<rparr>)
     = [\<lparr>Severity = SeverityError, Path = Some (Root ''password''),
         Summary = ''Unknown OpenNebula XML-RPC API password'',
         Detail = unknown_password_detail\<rparr>]"
proof -
  let ?c = "\<lparr>Endpoint = Known ''https://a'', FlowEndpoint = Null,
       Username = Known ''u'', Password = Null, Insecure = Null, DefaultTags = []\<rparr>"
  let ?u = "\<lparr>Endpoint = Known ''https://a'', FlowEndpoint = Null,
       Username = Known ''u'', Password = Unknown, Insecure = Null, DefaultTags = []\<rparr>"
  have r: "endpoint (resolved_of Map.empty ?c) = ''https://a''"
    "username (resolved_of Map.empty ?c) = ''u''" "password (resolved_of Map.empty ?c) = ''''"
    by (simp_all add: resolved_of_eq Getenv_def)
  have p: "\<not> parse_failed Map.empty"
    by (simp add: parse_failed_def Getenv_def)
  have k: "\<not> HasError []" "\<not> IsUnknown (Endpoint ?c)" "\<not> IsUnknown (Username ?c)"
    "\<not> IsUnknown (Password ?c)"
    by simp_all
  have e: "HasError (checked_diags Map.empty [] ?c)"
    using r by (simp add: HasError_checked_diags)
  have a: "Configure SV NV Map.empty [] ?c =
      \<lparr>Diagnostics = [\<lparr>Severity = SeverityError, Path = Some (Root ''endpoint''),
                         Summary = ''Missing OpenNebula account password'',
                         Detail = missing_password_detail\<rparr>],
        DataSourceData = None, ResourceData = None\<rparr>"
    using r p
    by (simp add: Configure_invalid [OF k e] checked_diags_eq [OF k] failed_def
        NewAttributeErrorDiagnostic_def)
  have u: "IsUnknown (Endpoint ?u) \<or> IsUnknown (Username ?u) \<or> IsUnknown (Password ?u)"
    by simp
  have b: "Diagnostics (Configure SV NV Map.empty [] ?u) =
      [\<lparr>Severity = SeverityError, Path = Some (Root ''password''),
         Summary = ''Unknown OpenNebula XML-RPC API password'',
         Detail = unknown_password_detail\<rparr>]"
    by (simp add: Configure_unknown [OF k(1) u] unknown_checks_eq [OF k(1)]
        NewAttributeErrorDiagnostic_def)
  show ?thesis
    using b by (simp add: a)
qed

text \<open>
  C4. When the checks for missing values are reached and a required field is resolved to
  the empty string, every empty required field adds its diagnostic in the same pass: the
  error diagnostics are as many as the empty fields (and one more when the boolean parse
  failed), and only then does \<open>Configure\<close> return, with no session.
\<close>

theorem Configure_missing_all_reported:
  assumes "\<not> HasError diags"
    and "\<not> IsUnknown (Endpoint c)" "\<not> IsUnknown (Username c)" "\<not> IsUnknown (Password c)"
    and "endpoint (resolved_of env c) = '''' \<or> username (resolved_of env c) = '''' \<or>
         password (resolved_of env c) = ''''"
  shows "Diagnostics (Configure SV NV env diags c) = Append [] diags @
       (if parse_failed env then [insecure_parse_diag] else []) @
       (if endpoint (resolved_of env c) = '''' then [missing_endpoint_diag] else []) @
       (if username (resolved_of env c) = '''' then [missing_username_diag] else []) @
       (if password (resolved_of env c) = '''' then [missing_password_diag] else []) \<and>
     length (filter (\<lambda>d. Severity d = SeverityError) (Diagnostics (Configure SV NV env diags c))) =
       (if parse_failed env then 1 else 0) +
       (if endpoint (resolved_of env c) = '''' then 1 else 0) +
       (if username (resolved_of env c) = '''' then 1 else 0) +
       (if password (resolved_of env c) = '''' then 1 else 0) \<and>
     DataSourceData (Configure SV NV env diags c) = None \<and>
     ResourceData (Configure SV NV env diags c) = None"
proof -
  from assms(1) have ne: "\<not> HasError (Append [] diags)"
    by simp
  have err: "HasError (checked_diags env diags c)"
    using assms(5) by (auto simp: HasError_checked_diags)
  have eq: "Configure SV NV env diags c = failed (checked_diags env diags c)"
    using assms(1-4) err by (rule Configure_invalid)
  show ?thesis
    by (simp add: eq checked_diags_eq [OF assms(1-4)] filter_errors_none [OF ne])
qed

theorem Configure_missing_all_reported_witness:
  "\<not> HasError [] \<and> \<not> IsUnknown (Null :: string tfval) \<and> \<not> IsUnknown (Known ''u'') \<and>
   (endpoint (resolved_of Map.empty
      \<lparr>Endpoint = Null, FlowEndpoint = Null, Username = Known ''u'', Password = Null,
       Insecure = Null, DefaultTags = []\<rparr>) = '''' \<or>
    password (resolved_of Map.empty
      \<lparr>Endpoint = Null, FlowEndpoint = Null, Username = Known ''u'', Password = Null,
       Insecure = Null, DefaultTags = []\<rparr>) = '''') \<and>
   Diagnostics (Configure (\<lambda>cl. Inr ''6.8.0'') Inr Map.empty []
      \<lparr>Endpoint = Null, FlowEndpoint = Null, Username = Known ''u'', Password = Null,
       Insecure = Null, DefaultTags = []\<rparr>) =
     [missing_endpoint_diag, missing_password_diag] \<and>
   length (filter (\<lambda>d. Severity d = SeverityError)
     (Diagnostics (Configure (\<lambda>cl. Inr ''6.8.0'') Inr Map.empty []
        \<lparr>Endpoint = Null, FlowEndpoint = Null, Username = Known ''u'', Password = Null,
         Insecure = Null, DefaultTags = []\<rparr>))) = 2 \<and>
   DataSourceData (Configure (\<lambda>cl. Inr ''6.8.0'') Inr Map.empty []
      \<lparr>Endpoint = Null, FlowEndpoint = Null, Username = Known ''u'', Password = Null,
       Insecure = Null, DefaultTags = []\<rparr>) = None"
proof -
  let ?c = "\<lparr>Endpoint = Null, FlowEndpoint = Null, Username = Known ''u'', Password = Null,
       Insecure = Null, DefaultTags = []\<rparr>"
  have r: "endpoint (resolved_of Map.empty ?c) = ''''" "username (resolved_of Map.empty ?c) = ''u''"
    "password (resolved_of Map.empty ?c) = ''''"
    by (simp_all add: resolved_of_eq Getenv_def)
  have p: "\<not> parse_failed Map.empty"
    by (simp add: parse_failed_def Getenv_def)
  have h1: "\<not> HasError []"
    by simp
  have h2: "\<not> IsUnknown (Endpoint ?c)" "\<not> IsUnknown (Username ?c)" "\<not> IsUnknown (Password ?c)"
    by simp_all
  have h3: "endpoint (resolved_of Map.empty ?c) = '''' \<or> username (resolved_of Map.empty ?c) = '''' \<or>
      password (resolved_of Map.empty ?c) = ''''"
    using r by simp
  from Configure_missing_all_reported [OF h1 h2 h3, where SV = "\<lambda>cl. Inr ''6.8.0''" and NV = Inr]
  show ?thesis
    using r p by simp
qed

text \<open>
  C5. When the configuration has been decoded without an error and one of \<open>endpoint\<close>,
  \<open>username\<close>, \<open>password\<close> is unknown, the response holds, after the diagnostics of the
  decode, one error diagnostic for each unknown field, with that field's path, all of them
  together, and no session.
\<close>

theorem Configure_unknown_required:
  assumes "\<not> HasError diags"
    and "IsUnknown (Endpoint c) \<or> IsUnknown (Username c) \<or> IsUnknown (Password c)"
  shows "Diagnostics (Configure SV NV env diags c) = Append [] diags @
       (if IsUnknown (Endpoint c) then [unknown_endpoint_diag] else []) @
       (if IsUnknown (Username c) then [unknown_username_diag] else []) @
       (if IsUnknown (Password c) then [unknown_password_diag] else []) \<and>
     DataSourceData (Configure SV NV env diags c) = None \<and>
     ResourceData (Configure SV NV env diags c) = None"
proof -
  from assms(1) have ne: "\<not> HasError (Append [] diags)"
    by simp
  show ?thesis
    by (simp only: Configure_unknown [OF assms] failed_sel unknown_checks_eq [OF ne] simp_thms)
qed

theorem Configure_unknown_required_witness:
  "\<not> HasError [] \<and>
   (IsUnknown (Unknown :: string tfval) \<or> IsUnknown (Known ''u'') \<or> IsUnknown (Unknown :: string tfval)) \<and>
   Diagnostics (Configure (\<lambda>cl. Inr ''6.8.0'') Inr Map.empty []
      \<lparr>Endpoint = Unknown, FlowEndpoint = Null, Username = Known ''u'', Password = Unknown,
       Insecure = Null, DefaultTags = []\<rparr>) =
     [unknown_endpoint_diag, unknown_password_diag] \<and>
   DataSourceData (Configure (\<lambda>cl. Inr ''6.8.0'') Inr Map.empty []
      \<lparr>Endpoint = Unknown, FlowEndpoint = Null, Username = Known ''u'', Password = Unknown,
       Insecure = Null, DefaultTags = []\<rparr>) = None \<and>
   ResourceData (Configure (\<lambda>cl. Inr ''6.8.0'') Inr Map.empty []
      \<lparr>Endpoint = Unknown, FlowEndpoint = Null, Username = Known ''u'', Password = Unknown,
       Insecure = Null, DefaultTags = []\<rparr>) = None"
proof -
  let ?c = "\<lparr>Endpoint = Unknown, FlowEndpoint = Null, Username = Known ''u'', Password = Unknown,
       Insecure = Null, DefaultTags = []\<rparr>"
  have h1: "\<not> HasError []"
    by simp
  have h2: "IsUnknown (Endpoint ?c) \<or> IsUnknown (Username ?c) \<or> IsUnknown (Password ?c)"
    by simp
  from Configure_unknown_required [OF h1 h2, where SV = "\<lambda>cl. Inr ''6.8.0''" and NV = Inr
      and env = Map.empty]
  show ?thesis
    by simp
qed

text \<open>
  C6, amended. When the configuration has been decoded without an error and none of
  \<open>endpoint\<close>, \<open>username\<close>, \<open>password\<close> is unknown, so that the parse of line 148 is
  reached, and \<^verbatim>\<open>OPENNEBULA_INSECURE\<close> is not empty and not a boolean literal, an error
  diagnostic with the path \<open>insecure\<close> is added; the checks for missing values still run
  after it, so the return is the one of line 211; and the resolved flag is false unless
  the declared value is not null, in which case it is the declared value.
\<close>

theorem Configure_insecure_env_unparsable:
  assumes "\<not> HasError diags"
    and "\<not> IsUnknown (Endpoint c)" "\<not> IsUnknown (Username c)" "\<not> IsUnknown (Password c)"
    and "Getenv env ''OPENNEBULA_INSECURE'' \<noteq> ''''"
    and "snd (ParseBool (Getenv env ''OPENNEBULA_INSECURE'')) \<noteq> None"
  shows "Diagnostics (Configure SV NV env diags c) = Append [] diags @ [insecure_parse_diag] @
       (if endpoint (resolved_of env c) = '''' then [missing_endpoint_diag] else []) @
       (if username (resolved_of env c) = '''' then [missing_username_diag] else []) @
       (if password (resolved_of env c) = '''' then [missing_password_diag] else []) \<and>
     DataSourceData (Configure SV NV env diags c) = None \<and>
     ResourceData (Configure SV NV env diags c) = None \<and>
     insecure (resolved_of env c) = (if IsNull (Insecure c) then False else ValueBool (Insecure c))"
proof -
  have pf: "parse_failed env"
    using assms(5,6) by (simp add: parse_failed_def)
  then have err: "HasError (checked_diags env diags c)"
    by (simp add: HasError_checked_diags)
  have eq: "Configure SV NV env diags c = failed (checked_diags env diags c)"
    using assms(1-4) err by (rule Configure_invalid)
  have ins: "insecure (resolved_of env c) = (if IsNull (Insecure c) then False else ValueBool (Insecure c))"
    using assms(6) by (simp add: insecure_resolved ParseBool_error)
  show ?thesis
    using pf ins by (simp add: eq checked_diags_eq [OF assms(1-4)])
qed

theorem Configure_insecure_env_unparsable_witness:
  "Getenv [''OPENNEBULA_INSECURE'' \<mapsto> ''yes''] ''OPENNEBULA_INSECURE'' \<noteq> '''' \<and>
   snd (ParseBool (Getenv [''OPENNEBULA_INSECURE'' \<mapsto> ''yes''] ''OPENNEBULA_INSECURE'')) \<noteq> None \<and>
   Diagnostics (Configure (\<lambda>cl. Inr ''6.8.0'') Inr [''OPENNEBULA_INSECURE'' \<mapsto> ''yes''] []
      \<lparr>Endpoint = Null, FlowEndpoint = Null, Username = Known ''u'', Password = Known ''p'',
       Insecure = Null, DefaultTags = []\<rparr>) =
     [insecure_parse_diag, missing_endpoint_diag] \<and>
   DataSourceData (Configure (\<lambda>cl. Inr ''6.8.0'') Inr [''OPENNEBULA_INSECURE'' \<mapsto> ''yes''] []
      \<lparr>Endpoint = Null, FlowEndpoint = Null, Username = Known ''u'', Password = Known ''p'',
       Insecure = Null, DefaultTags = []\<rparr>) = None \<and>
   insecure (resolved_of [''OPENNEBULA_INSECURE'' \<mapsto> ''yes'']
      \<lparr>Endpoint = Null, FlowEndpoint = Null, Username = Known ''u'', Password = Known ''p'',
       Insecure = Null, DefaultTags = []\<rparr>) = False"
proof -
  let ?c = "\<lparr>Endpoint = Null, FlowEndpoint = Null, Username = Known ''u'', Password = Known ''p'',
       Insecure = Null, DefaultTags = []\<rparr>"
  let ?env = "[''OPENNEBULA_INSECURE'' \<mapsto> ''yes'']"
  have r: "endpoint (resolved_of ?env ?c) = ''''" "username (resolved_of ?env ?c) = ''u''"
    "password (resolved_of ?env ?c) = ''p''"
    by (simp_all add: resolved_of_eq Getenv_def)
  have h1: "\<not> HasError []"
    by simp
  have h2: "\<not> IsUnknown (Endpoint ?c)" "\<not> IsUnknown (Username ?c)" "\<not> IsUnknown (Password ?c)"
    by simp_all
  have h3: "Getenv ?env ''OPENNEBULA_INSECURE'' \<noteq> ''''"
    by (simp add: Getenv_def)
  have h4: "snd (ParseBool (Getenv ?env ''OPENNEBULA_INSECURE'')) \<noteq> None"
    by (simp add: Getenv_def ParseBool_def)
  from Configure_insecure_env_unparsable [OF h1 h2 h3 h4, where SV = "\<lambda>cl. Inr ''6.8.0''" and NV = Inr]
  show ?thesis
    using r h3 h4 by simp
qed

text \<open>
  C6, as stated without the condition that the parse is reached, fails. With an unknown
  declared \<open>endpoint\<close> and \<^verbatim>\<open>OPENNEBULA_INSECURE\<close> set to \<open>yes\<close>, \<open>Configure\<close> returns at
  line 132, before the parse of line 148: the response holds the diagnostic for the
  unknown endpoint only, and none with the path \<open>insecure\<close>. With an error diagnostic from
  the decode it returns at line 101, and the response holds that diagnostic only.
\<close>

theorem Configure_insecure_env_unparsable_counterexample:
  "Getenv [''OPENNEBULA_INSECURE'' \<mapsto> ''yes''] ''OPENNEBULA_INSECURE'' \<noteq> '''' \<and>
   snd (ParseBool (Getenv [''OPENNEBULA_INSECURE'' \<mapsto> ''yes''] ''OPENNEBULA_INSECURE'')) \<noteq> None \<and>
   Diagnostics (Configure (\<lambda>cl. Inr ''6.8.0'') Inr [''OPENNEBULA_INSECURE'' \<mapsto> ''yes''] []
      \<lparr>Endpoint = Unknown, FlowEndpoint = Null, Username = Known ''u'', Password = Known ''p'',
       Insecure = Null, DefaultTags = []\<rparr>) = [unknown_endpoint_diag] \<and>
   filter (\<lambda>d. Path d = Some (Root ''insecure''))
     (Diagnostics (Configure (\<lambda>cl. Inr ''6.8.0'') Inr [''OPENNEBULA_INSECURE'' \<mapsto> ''yes''] []
        \<lparr>Endpoint = Unknown, FlowEndpoint = Null, Username = Known ''u'', Password = Known ''p'',
         Insecure = Null, DefaultTags = []\<rparr>)) = [] \<and>
   Diagnostics (Configure (\<lambda>cl. Inr ''6.8.0'') Inr [''OPENNEBULA_INSECURE'' \<mapsto> ''yes'']
      [NewErrorDiagnostic ''Value Conversion Error'' ''mismatch'']
      \<lparr>Endpoint = Known ''https://a'', FlowEndpoint = Null, Username = Known ''u'',
       Password = Known ''p'', Insecure = Null, DefaultTags = []\<rparr>) =
     [NewErrorDiagnostic ''Value Conversion Error'' ''mismatch'']"
proof -
  let ?env = "[''OPENNEBULA_INSECURE'' \<mapsto> ''yes'']"
  let ?c = "\<lparr>Endpoint = Unknown, FlowEndpoint = Null, Username = Known ''u'', Password = Known ''p'',
       Insecure = Null, DefaultTags = []\<rparr>"
  have h3: "Getenv ?env ''OPENNEBULA_INSECURE'' \<noteq> ''''"
    by (simp add: Getenv_def)
  have h4: "snd (ParseBool (Getenv ?env ''OPENNEBULA_INSECURE'')) \<noteq> None"
    by (simp add: Getenv_def ParseBool_def)
  have k: "\<not> HasError []"
    by simp
  have u: "IsUnknown (Endpoint ?c) \<or> IsUnknown (Username ?c) \<or> IsUnknown (Password ?c)"
    by simp
  have a: "Diagnostics (Configure (\<lambda>cl. Inr ''6.8.0'') Inr ?env [] ?c) = [unknown_endpoint_diag]"
    by (simp add: Configure_unknown [OF k u] unknown_checks_eq [OF k])
  have e: "HasError [NewErrorDiagnostic ''Value Conversion Error'' ''mismatch'']"
    by simp
  show ?thesis
    using h3 h4 by (simp add: a Configure_decode_error [OF e])
qed

text \<open>
  C7. When the checks before the client is built have passed, a failure of the remote
  version query, and a failure to parse the version string it returned, each add exactly
  one error diagnostic, whose detail is the text of the failure, and \<open>Configure\<close> returns
  with no session.
\<close>

theorem Configure_version_failure:
  assumes "\<not> HasError (checked_diags env diags c)"
  shows "(SV (client_of (resolved_of env c)) = Inl err \<longrightarrow>
        Diagnostics (Configure SV NV env diags c) =
          Append [] diags @ [NewErrorDiagnostic ''Failed to get OpenNebula release number'' err] \<and>
        filter (\<lambda>d. Severity d = SeverityError) (Diagnostics (Configure SV NV env diags c)) =
          [NewErrorDiagnostic ''Failed to get OpenNebula release number'' err] \<and>
        DataSourceData (Configure SV NV env diags c) = None \<and>
        ResourceData (Configure SV NV env diags c) = None) \<and>
     (SV (client_of (resolved_of env c)) = Inr v \<and> NV v = Inl err \<longrightarrow>
        Diagnostics (Configure SV NV env diags c) =
          Append [] diags @ [NewErrorDiagnostic ''Failed to parse OpenNebula version'' err] \<and>
        filter (\<lambda>d. Severity d = SeverityError) (Diagnostics (Configure SV NV env diags c)) =
          [NewErrorDiagnostic ''Failed to parse OpenNebula version'' err] \<and>
        DataSourceData (Configure SV NV env diags c) = None \<and>
        ResourceData (Configure SV NV env diags c) = None)"
proof -
  from assms have ne: "\<not> HasError (Append [] diags)"
    by (simp add: HasError_checked_diags)
  show ?thesis
    by (simp add: Configure_valid [OF assms] AddError_fresh [OF ne] filter_errors_none [OF ne])
qed

theorem Configure_version_failure_witness:
  "\<not> HasError (checked_diags Map.empty []
      \<lparr>Endpoint = Known ''https://a'', FlowEndpoint = Null, Username = Known ''u'',
       Password = Known ''p'', Insecure = Null, DefaultTags = []\<rparr>) \<and>
   Diagnostics (Configure (\<lambda>cl. Inl ''connection refused'') (Inr :: string \<Rightarrow> string + string)
      Map.empty []
      \<lparr>Endpoint = Known ''https://a'', FlowEndpoint = Null, Username = Known ''u'',
       Password = Known ''p'', Insecure = Null, DefaultTags = []\<rparr>) =
     [NewErrorDiagnostic ''Failed to get OpenNebula release number'' ''connection refused''] \<and>
   DataSourceData (Configure (\<lambda>cl. Inl ''connection refused'') (Inr :: string \<Rightarrow> string + string)
      Map.empty []
      \<lparr>Endpoint = Known ''https://a'', FlowEndpoint = Null, Username = Known ''u'',
       Password = Known ''p'', Insecure = Null, DefaultTags = []\<rparr>) = None \<and>
   Diagnostics (Configure (\<lambda>cl. Inr ''six'') (\<lambda>s. Inl (''Malformed version: '' @ s) :: string + string)
      Map.empty []
      \<lparr>Endpoint = Known ''https://a'', FlowEndpoint = Null, Username = Known ''u'',
       Password = Known ''p'', Insecure = Null, DefaultTags = []\<rparr>) =
     [NewErrorDiagnostic ''Failed to parse OpenNebula version'' ''Malformed version: six''] \<and>
   DataSourceData (Configure (\<lambda>cl. Inr ''six'') (\<lambda>s. Inl (''Malformed version: '' @ s) :: string + string)
      Map.empty []
      \<lparr>Endpoint = Known ''https://a'', FlowEndpoint = Null, Username = Known ''u'',
       Password = Known ''p'', Insecure = Null, DefaultTags = []\<rparr>) = None"
proof -
  let ?c = "\<lparr>Endpoint = Known ''https://a'', FlowEndpoint = Null, Username = Known ''u'',
       Password = Known ''p'', Insecure = Null, DefaultTags = []\<rparr>"
  have h: "\<not> HasError (checked_diags Map.empty [] ?c)"
    by (simp add: HasError_checked_diags resolved_of_eq parse_failed_def Getenv_def)
  from Configure_version_failure [OF h, where SV = "\<lambda>cl. Inl ''connection refused''"
      and NV = "Inr :: string \<Rightarrow> string + string" and err = "''connection refused''"]
    Configure_version_failure [OF h, where SV = "\<lambda>cl. Inr ''six''"
      and NV = "\<lambda>s. Inl (''Malformed version: '' @ s) :: string + string"
      and v = "''six''" and err = "''Malformed version: six''"]
  show ?thesis
    using h by simp
qed

text \<open>
  C8. Whenever an error diagnostic exists at the end of a stage of \<open>Configure\<close> (the
  decode of the configuration, the checks for unknown values, the boolean parse with the
  checks for missing values, the version query, the version parse), or in the response,
  \<open>Configure\<close> returns with neither \<open>DataSourceData\<close> nor \<open>ResourceData\<close> assigned, and
  the response holds an error diagnostic: no session is handed on beside an error.
\<close>

theorem Configure_no_session_on_error:
  assumes "HasError diags \<or> HasError (unknown_checks c (Append [] diags)) \<or>
      HasError (checked_diags env diags c) \<or>
      isl (SV (client_of (resolved_of env c))) \<or>
      (\<exists>v. SV (client_of (resolved_of env c)) = Inr v \<and> isl (NV v)) \<or>
      HasError (Diagnostics (Configure SV NV env diags c))"
  shows "DataSourceData (Configure SV NV env diags c) = None \<and>
     ResourceData (Configure SV NV env diags c) = None \<and>
     HasError (Diagnostics (Configure SV NV env diags c))"
proof (cases "HasError (checked_diags env diags c)")
  case True
  show ?thesis
  proof (cases "HasError diags")
    case True
    then show ?thesis by (simp add: Configure_decode_error)
  next
    case ne: False
    show ?thesis
    proof (cases "IsUnknown (Endpoint c) \<or> IsUnknown (Username c) \<or> IsUnknown (Password c)")
      case True
      then show ?thesis
        using ne by (auto simp: Configure_unknown HasError_unknown_checks)
    next
      case False
      then show ?thesis
        using ne True by (simp add: Configure_invalid)
    qed
  qed
next
  case False
  then have ne: "\<not> HasError diags" "\<not> HasError (unknown_checks c (Append [] diags))"
    by (simp_all add: HasError_checked_diags HasError_unknown_checks)
  show ?thesis
  proof (cases "SV (client_of (resolved_of env c))")
    case (Inl err)
    then show ?thesis
      using ne(1) by (simp add: Configure_valid [OF False] AddError_fresh)
  next
    case (Inr v)
    show ?thesis
    proof (cases "NV v")
      case (Inl err)
      then show ?thesis
        using ne(1) Inr by (simp add: Configure_valid [OF False] AddError_fresh)
    next
      case r: (Inr ver)
      with assms False ne Inr show ?thesis
        by (simp add: Configure_valid [OF False])
    qed
  qed
qed

theorem Configure_no_session_on_error_witness:
  "HasError (checked_diags Map.empty []
      \<lparr>Endpoint = Null, FlowEndpoint = Null, Username = Known ''u'', Password = Known ''p'',
       Insecure = Null, DefaultTags = []\<rparr>) \<and>
   DataSourceData (Configure (\<lambda>cl. Inr ''6.8.0'') Inr Map.empty []
      \<lparr>Endpoint = Null, FlowEndpoint = Null, Username = Known ''u'', Password = Known ''p'',
       Insecure = Null, DefaultTags = []\<rparr>) = None \<and>
   ResourceData (Configure (\<lambda>cl. Inr ''6.8.0'') Inr Map.empty []
      \<lparr>Endpoint = Null, FlowEndpoint = Null, Username = Known ''u'', Password = Known ''p'',
       Insecure = Null, DefaultTags = []\<rparr>) = None \<and>
   isl ((\<lambda>cl. Inl ''connection refused'' :: string + string) (client_of (resolved_of Map.empty
      \<lparr>Endpoint = Known ''https://a'', FlowEndpoint = Null, Username = Known ''u'',
       Password = Known ''p'', Insecure = Null, DefaultTags = []\<rparr>))) \<and>
   DataSourceData (Configure (\<lambda>cl. Inl ''connection refused'') (Inr :: string \<Rightarrow> string + string)
      Map.empty []
      \<lparr>Endpoint = Known ''https://a'', FlowEndpoint = Null, Username = Known ''u'',
       Password = Known ''p'', Insecure = Null, DefaultTags = []\<rparr>) = None"
proof -
  let ?c = "\<lparr>Endpoint = Null, FlowEndpoint = Null, Username = Known ''u'', Password = Known ''p'',
       Insecure = Null, DefaultTags = []\<rparr>"
  let ?c' = "\<lparr>Endpoint = Known ''https://a'', FlowEndpoint = Null, Username = Known ''u'',
       Password = Known ''p'', Insecure = Null, DefaultTags = []\<rparr>"
  have h: "HasError (checked_diags Map.empty [] ?c)"
    by (simp add: HasError_checked_diags resolved_of_eq Getenv_def)
  have a: "DataSourceData (Configure (\<lambda>cl. Inr ''6.8.0'') Inr Map.empty [] ?c) = None \<and>
      ResourceData (Configure (\<lambda>cl. Inr ''6.8.0'') Inr Map.empty [] ?c) = None"
    using Configure_no_session_on_error [where SV = "\<lambda>cl. Inr ''6.8.0''" and NV = Inr
        and env = Map.empty and diags = "[]" and c = ?c] h
    by blast
  have b: "DataSourceData (Configure (\<lambda>cl. Inl ''connection refused'')
      (Inr :: string \<Rightarrow> string + string) Map.empty [] ?c') = None"
    using Configure_no_session_on_error [where SV = "\<lambda>cl. Inl ''connection refused''"
        and NV = "Inr :: string \<Rightarrow> string + string" and env = Map.empty and diags = "[]" and c = ?c']
    by simp
  show ?thesis
    using h a b by simp
qed

text \<open>
  C10. When the declared \<open>insecure\<close> is unknown, the resolved flag is false whatever the
  environment holds (with a null declared value it would be the value parsed from the
  environment); \<open>Configure\<close> answers as it does for a declared \<open>false\<close>; the checks for
  unknown values add nothing for the field; and a diagnostic with the path \<open>insecure\<close> in
  the response comes from the decode or is the one of a failed parse of the environment
  variable.
\<close>

theorem Configure_insecure_unknown:
  assumes "Insecure c = Unknown"
  shows "insecure (resolved_of env c) = False \<and>
     insecure (resolved_of env (c\<lparr>Insecure := Null\<rparr>)) =
       (Getenv env ''OPENNEBULA_INSECURE'' \<noteq> '''' \<and> fst (ParseBool (Getenv env ''OPENNEBULA_INSECURE''))) \<and>
     Configure SV NV env diags c = Configure SV NV env diags (c\<lparr>Insecure := Known False\<rparr>) \<and>
     unknown_checks c ds = unknown_checks (c\<lparr>Insecure := Null\<rparr>) ds \<and>
     (\<forall>d\<in>set (Diagnostics (Configure SV NV env diags c)).
        Path d = Some (Root ''insecure'') \<longrightarrow>
        d \<in> set diags \<or> (d = insecure_parse_diag \<and> parse_failed env))"
proof -
  have a: "insecure (resolved_of env c) = False"
    using assms by (simp add: insecure_resolved)
  have b: "insecure (resolved_of env (c\<lparr>Insecure := Null\<rparr>)) =
       (Getenv env ''OPENNEBULA_INSECURE'' \<noteq> '''' \<and> fst (ParseBool (Getenv env ''OPENNEBULA_INSECURE'')))"
    by (simp add: insecure_resolved)
  have c: "Configure SV NV env diags c = Configure SV NV env diags (c\<lparr>Insecure := Known False\<rparr>)"
    by (simp add: Configure_def Let_def case_prod_beta resolve_insecure_unknown [OF assms] cong: sum.case_cong)
  have d: "unknown_checks c ds = unknown_checks (c\<lparr>Insecure := Null\<rparr>) ds"
    by simp
  show ?thesis
    using a b c d Configure_diag_origin [of _ SV NV env diags c] by blast
qed

theorem Configure_insecure_unknown_witness:
  "Insecure \<lparr>Endpoint = Known ''https://a'', FlowEndpoint = Null, Username = Known ''u'',
       Password = Known ''p'', Insecure = Unknown, DefaultTags = []\<rparr> = Unknown \<and>
   insecure (resolved_of [''OPENNEBULA_INSECURE'' \<mapsto> ''true'']
      \<lparr>Endpoint = Known ''https://a'', FlowEndpoint = Null, Username = Known ''u'',
       Password = Known ''p'', Insecure = Unknown, DefaultTags = []\<rparr>) = False \<and>
   insecure (resolved_of [''OPENNEBULA_INSECURE'' \<mapsto> ''true'']
      \<lparr>Endpoint = Known ''https://a'', FlowEndpoint = Null, Username = Known ''u'',
       Password = Known ''p'', Insecure = Null, DefaultTags = []\<rparr>) = True \<and>
   Configure (\<lambda>cl. Inr ''6.8.0'') Inr [''OPENNEBULA_INSECURE'' \<mapsto> ''true''] []
      \<lparr>Endpoint = Known ''https://a'', FlowEndpoint = Null, Username = Known ''u'',
       Password = Known ''p'', Insecure = Unknown, DefaultTags = []\<rparr> =
   Configure (\<lambda>cl. Inr ''6.8.0'') Inr [''OPENNEBULA_INSECURE'' \<mapsto> ''true''] []
      \<lparr>Endpoint = Known ''https://a'', FlowEndpoint = Null, Username = Known ''u'',
       Password = Known ''p'', Insecure = Known False, DefaultTags = []\<rparr>"
proof -
  let ?c = "\<lparr>Endpoint = Known ''https://a'', FlowEndpoint = Null, Username = Known ''u'',
       Password = Known ''p'', Insecure = Unknown, DefaultTags = []\<rparr>"
  let ?env = "[''OPENNEBULA_INSECURE'' \<mapsto> ''true'']"
  have h: "Insecure ?c = Unknown"
    by simp
  from Configure_insecure_unknown [OF h, where env = ?env and SV = "\<lambda>cl. Inr ''6.8.0''"
      and NV = Inr and diags = "[]"]
  show ?thesis
    by (simp add: Getenv_def ParseBool_def)
qed

end
